theory Spec2Isabelle
  imports Main
begin

section \<open>Python values used by \<open>discord_bot.py\<close>\<close>

text \<open>
  The exceptions that the modelled code can raise. \<open>SyntaxError\<close> carries its message,
  because \<open>process_message\<close> forwards it to the user.
\<close>

datatype pyerror =
    TypeError
  | KeyError
  | IndexError
  | AttributeError
  | UnboundLocalError
  | ValueError
  | SyntaxError string

text \<open>\<open>str.startswith\<close>.\<close>

definition startswith :: "string \<Rightarrow> string \<Rightarrow> bool" where
  "startswith s p = (take (length p) s = p)"

text \<open>
  \<open>str.lstrip(chars)\<close>: removes every leading character that occurs in \<open>chars\<close>
  (a set of characters, not a prefix).
\<close>

definition lstrip :: "string \<Rightarrow> string \<Rightarrow> string" where
  "lstrip s chars = dropWhile (\<lambda>c. c \<in> set chars) s"

text \<open>\<open>str(n)\<close> for a Python integer: decimal digits, with a minus sign when negative.\<close>

definition digit_char :: "nat \<Rightarrow> char" where
  "digit_char d = ''0123456789'' ! d"

fun str_nat :: "nat \<Rightarrow> string" where
  "str_nat n = (if n < 10 then [digit_char n] else str_nat (n div 10) @ [digit_char (n mod 10)])"

declare str_nat.simps [simp del]

definition py_str :: "int \<Rightarrow> string" where
  "py_str i = (if i < 0 then CHR ''-'' # str_nat (nat (- i)) else str_nat (nat i))"

text \<open>\<open>str(b)\<close> for a Python boolean.\<close>

definition str_bool :: "bool \<Rightarrow> string" where
  "str_bool b = (if b then ''True'' else ''False'')"

text \<open>
  \<open>int(s)\<close>, on the strings it is applied to in \<open>__find_menu\<close>: group 1 of a match,
  a non-empty run of the digits 1 to 9.
\<close>

definition digit_val :: "char \<Rightarrow> int" where
  "digit_val c = int (length (takeWhile (\<lambda>d. d \<noteq> c) ''0123456789''))"

definition py_int :: "string \<Rightarrow> int" where
  "py_int s = foldl (\<lambda>acc c. 10 * acc + digit_val c) 0 s"

text \<open>
  \<open>xs[i]\<close> on a Python list: a negative index counts from the end, an index out of
  range raises \<open>IndexError\<close>.
\<close>

definition py_getitem :: "'a list \<Rightarrow> int \<Rightarrow> pyerror + 'a" where
  "py_getitem xs i =
     (if 0 \<le> i \<and> i < int (length xs) then Inr (xs ! nat i)
      else if i < 0 \<and> - int (length xs) \<le> i then Inr (xs ! nat (int (length xs) + i))
      else Inl IndexError)"

text \<open>\<open>range(a, a + k)\<close> as the list of its values.\<close>

definition py_range :: "int \<Rightarrow> nat \<Rightarrow> int list" where
  "py_range a k = map (\<lambda>d. a + int d) [0..<k]"

section \<open>The footer grammar\<close>

text \<open>
  \<open>self.__state_regex\<close> is
  \<^verbatim>\<open>Page: ([1-9]+) List: ([a-zA-Z_]+) Selection: (True|False)\<close>.
  \<open>state_regex_fullmatch\<close> is \<open>self.__state_regex.fullmatch\<close>, returning the three
  groups. Each repetition is followed by a literal space, which is outside both
  character classes, so the greedy run is the only way to match.
\<close>

definition is_digit19 :: "char \<Rightarrow> bool" where
  "is_digit19 c = (c \<in> set ''123456789'')"

definition is_name_char :: "char \<Rightarrow> bool" where
  "is_name_char c =
     (c \<in> set ''abcdefghijklmnopqrstuvwxyzABCDEFGHIJKLMNOPQRSTUVWXYZ_'')"

definition strip_literal :: "string \<Rightarrow> string \<Rightarrow> string option" where
  "strip_literal p s = (if startswith s p then Some (drop (length p) s) else None)"

definition state_regex_fullmatch :: "string \<Rightarrow> (string \<times> string \<times> string) option" where
  "state_regex_fullmatch s =
     (case strip_literal ''Page: '' s of
        None \<Rightarrow> None
      | Some r1 \<Rightarrow>
          let g1 = takeWhile is_digit19 r1; r2 = dropWhile is_digit19 r1 in
          if g1 = [] then None
          else (case strip_literal '' List: '' r2 of
                  None \<Rightarrow> None
                | Some r3 \<Rightarrow>
                    let g2 = takeWhile is_name_char r3; r4 = dropWhile is_name_char r3 in
                    if g2 = [] then None
                    else (case strip_literal '' Selection: '' r4 of
                            None \<Rightarrow> None
                          | Some g3 \<Rightarrow>
                              if g3 = ''True'' \<or> g3 = ''False'' then Some (g1, g2, g3)
                              else None)))"

text \<open>
  The state string that \<open>__create_embed_menu\<close> writes into the footer:
  \<^verbatim>\<open>f"Page: {page} List: {title} Selection: {allow_selection}"\<close>.
\<close>

definition state_string :: "int \<Rightarrow> string \<Rightarrow> bool \<Rightarrow> string" where
  "state_string page title allow_selection =
     ''Page: '' @ py_str page @ '' List: '' @ title @ '' Selection: '' @ str_bool allow_selection"

text \<open>
  The decoding of a footer in \<open>__find_menu\<close>: the match, then \<open>int\<close> of group 1,
  group 2, and the comparison of group 3 with \<open>"True"\<close>. \<open>None\<close> is the branch that
  raises \<open>SyntaxError("Invaild footer detected.")\<close>.
\<close>

definition decode_footer :: "string \<Rightarrow> (int \<times> string \<times> bool) option" where
  "decode_footer footer =
     (case state_regex_fullmatch footer of
        None \<Rightarrow> None
      | Some (g1, g2, g3) \<Rightarrow> Some (py_int g1, g2, g3 = ''True''))"

section \<open>Users, messages and the transport\<close>

text \<open>
  What the source reads of \<open>message.author\<close>. \<open>nick\<close> is \<open>None\<close> when the object has
  no such attribute (\<open>hasattr\<close> is false) and \<open>Some None\<close> when the attribute holds
  Python's \<open>None\<close>. \<open>server_permissions\<close> is \<open>None\<close> when the attribute is missing;
  otherwise it lists the permission attributes of the object and their values.
\<close>

record user =
  user_id :: nat
  user_name :: string
  mention :: string
  nick :: "string option option"
  server_permissions :: "(string \<times> bool) list option"

datatype destination = Channel nat | Direct nat

text \<open>
  An embed. \<open>__find_menu\<close> reads it as a dictionary (\<open>["title"]\<close>,
  \<open>["footer"]["text"]\<close>), so a missing entry is \<open>None\<close> and raises \<open>KeyError\<close>.
\<close>

record embed =
  title :: "string option"
  footer_text :: "string option"
  embed_fields :: "(int \<times> string) list"
  description :: "string option"

record message =
  msg_id :: nat
  author :: user
  channel :: destination
  content :: string
  embeds :: "embed list"

datatype argval = VStr string | VInt int | VNone

text \<open>
  The \<open>argparse.Namespace\<close> returned by \<open>parse_args\<close>: the attribute \<open>command\<close>
  (the destination of the sub-parsers) and the other attributes.
\<close>

record namespace =
  ns_command :: "string option"
  ns_args :: "(string \<times> argval) list"

text \<open>
  How a handler written by the user of the framework was called: with the namespace
  itself as second positional argument, or with the remaining attributes of the
  namespace as keyword arguments. \<open>Selected\<close> is the call of a menu's handler.
\<close>

datatype callargs = Raw namespace | Unpacked "(string \<times> argval) list"

datatype event = Called string message callargs | Selected string string

text \<open>
  The state outside the bot: the messages the transport holds, newest first, the next
  message id, and the calls of user handlers made so far.
\<close>

record world =
  log :: "message list"
  next_id :: nat
  calls :: "event list"

text \<open>
  Modelled from the spec: the operations of the chat transport (section 6 of the
  specification: send, edit, delete, history most recent first, bounded by a limit).
  They belong to the client library, not to the source.
\<close>

definition send_message :: "user \<Rightarrow> destination \<Rightarrow> string \<Rightarrow> embed list \<Rightarrow> world \<Rightarrow> world" where
  "send_message me dest txt es w =
     w\<lparr>log := \<lparr>msg_id = next_id w, author = me, channel = dest, content = txt, embeds = es\<rparr> # log w,
       next_id := Suc (next_id w)\<rparr>"

definition delete_message :: "message \<Rightarrow> world \<Rightarrow> world" where
  "delete_message m w = w\<lparr>log := filter (\<lambda>x. msg_id x \<noteq> msg_id m) (log w)\<rparr>"

definition delete_messages :: "message list \<Rightarrow> world \<Rightarrow> world" where
  "delete_messages ms w = fold delete_message ms w"

definition edit_message :: "message \<Rightarrow> embed \<Rightarrow> world \<Rightarrow> world" where
  "edit_message m e w =
     w\<lparr>log := map (\<lambda>x. if msg_id x = msg_id m then x\<lparr>embeds := [e]\<rparr> else x) (log w)\<rparr>"

definition logs_from :: "world \<Rightarrow> destination \<Rightarrow> nat \<Rightarrow> message \<Rightarrow> message list" where
  "logs_from w ch limit before =
     take limit (filter (\<lambda>x. channel x = ch \<and> msg_id x < msg_id before) (log w))"

section \<open>Functions, commands and the bot\<close>

text \<open>
  The attributes that the decorators \<open>owner_only\<close> and \<open>permissions_required\<close> set
  on a function; \<open>None\<close> is an absent attribute.
\<close>

record attrs =
  bot_owner :: "bool option"
  check_failed :: "string option"
  permissions_required :: "string list option"

definition no_attrs :: attrs where
  "no_attrs = \<lparr>bot_owner = None, check_failed = None, permissions_required = None\<rparr>"

datatype attr_name = A_bot_owner | A_check_failed | A_permissions_required

datatype annotation =
    AnnMessage
  | AnnBool bool
  | AnnDict "(string \<times> argval) list"
  | AnnInt
  | AnnOther

datatype param_kind =
    POSITIONAL_ONLY
  | POSITIONAL_OR_KEYWORD
  | VAR_POSITIONAL
  | KEYWORD_ONLY
  | VAR_KEYWORD

record parameter =
  p_annotation :: annotation
  p_kind :: param_kind

datatype builtin = Next | Back | Select | Dismiss

datatype code = UserCode | BuiltinCode builtin

text \<open>What \<open>inspect.isfunction\<close> and \<open>inspect.ismethod\<close> answer for an object.\<close>

datatype fkind = IsFunction | IsMethod | NotFunction

record func =
  f_name :: string
  f_doc :: "string option"
  f_kind :: fkind
  f_params :: "(string \<times> parameter) list"
  f_attrs :: attrs
  f_code :: code

text \<open>
  The objects stored in \<open>self.commands\<close>: a function as it was given, the closure
  \<open>wrapped_command\<close> (its own attributes and the \<open>command\<close> it closes over), or the
  closure \<open>activate_menu\<close> (the menu name, a string or \<open>None\<close>, and the selection mode it
  closes over).
\<close>

datatype callable = Plain func | Wrapped attrs func | Activate "string option" bool

datatype pytype = StrT | IntT

record argument =
  arg_name :: string
  arg_action :: string
  arg_const :: "argval option"
  arg_type :: pytype

record subparser =
  sp_help :: "string option"
  sp_arguments :: "argument list"

record menu =
  options :: "string list"
  handler :: "func option"

text \<open>
  The bot. The dictionaries are keyed by a string or by Python's \<open>None\<close>.
  \<open>bot_user\<close> is \<open>self.user\<close> and \<open>app_owner\<close> is what \<open>discord.AppInfo.owner\<close>
  evaluates to, both supplied by the client library; \<open>app_owner\<close> is \<open>None\<close> when
  that value is not a user.
\<close>

record bot =
  bot_user :: user
  app_owner :: "user option"
  prefix :: string
  commands :: "string option \<Rightarrow> callable option"
  menus :: "string option \<Rightarrow> menu option"
  sub_parsers :: "string option \<Rightarrow> subparser option"

text \<open>
  The library functions that the source calls and whose results it depends on, taken as
  parameters: \<open>shlex.split\<close>, \<open>parse_args\<close> of the parser built from the registered
  sub-parsers (a bad command line raises \<open>SyntaxError\<close> through \<open>BotParser.error\<close>),
  and \<open>str.format\<close> with the keyword arguments \<open>name\<close> and \<open>mention\<close>.
\<close>

record env =
  shlex_split :: "string \<Rightarrow> pyerror + string list"
  parse_args :: "(string option \<Rightarrow> subparser option) \<Rightarrow> string list \<Rightarrow> pyerror + namespace"
  str_format :: "string \<Rightarrow> string option \<Rightarrow> string \<Rightarrow> pyerror + string"

definition items_per_page :: nat where
  "items_per_page = 5"

section \<open>Registration\<close>

text \<open>
  \<open>__parse_keyword_postional\<close>. The assignment \<open>type = str\<close> makes \<open>type\<close> a local
  name of the function, so \<open>type(parameter.annotation)\<close> calls \<open>str\<close> and yields a
  string object. \<open>pyobject\<close> lists the objects that take part in the two \<open>is\<close>
  comparisons. The branch \<open>parameter.annontation is False\<close> reads an attribute that
  no parameter has.
\<close>

datatype pyobject = StrInstance | IntInstance | ClassBool | ClassDict

definition call_type :: "pytype \<Rightarrow> annotation \<Rightarrow> pyobject" where
  "call_type t a = (case t of StrT \<Rightarrow> StrInstance | IntT \<Rightarrow> IntInstance)"

definition add_argument :: "subparser \<Rightarrow> string \<Rightarrow> string \<Rightarrow> argval option \<Rightarrow> pytype \<Rightarrow> subparser" where
  "add_argument sp name action const type =
     sp\<lparr>sp_arguments := sp_arguments sp @
          [\<lparr>arg_name = name, arg_action = action, arg_const = const, arg_type = type\<rparr>]\<rparr>"

definition parse_keyword_postional :: "parameter \<Rightarrow> string \<Rightarrow> subparser \<Rightarrow> pyerror + subparser" where
  "parse_keyword_postional parameter name sub_parser =
     (let action = ''store''; const = None; type = StrT in
      if call_type type (p_annotation parameter) = ClassBool then
        (if p_annotation parameter = AnnBool True
         then Inr (add_argument sub_parser name ''store_true'' const type)
         else Inl AttributeError)
      else if call_type type (p_annotation parameter) = ClassDict then
        (case p_annotation parameter of
           AnnDict d \<Rightarrow>
             (case map_of d ''const'' of
                None \<Rightarrow> Inl KeyError
              | Some c \<Rightarrow> Inr (add_argument sub_parser name ''store_const'' (Some c) type))
         | _ \<Rightarrow> Inl TypeError)
      else if p_annotation parameter = AnnInt then
        Inr (add_argument sub_parser name action const IntT)
      else Inr (add_argument sub_parser name action const type))"

text \<open>
  The loop of \<open>__parse_parameters\<close> over the parameters. The sub-parser is an object
  that the loop fills in place, so what was added before an exception stays.
\<close>

fun parse_parameter_loop :: "(string \<times> parameter) list \<Rightarrow> subparser \<Rightarrow> pyerror option \<times> subparser" where
  "parse_parameter_loop [] sp = (None, sp)"
| "parse_parameter_loop ((parameter_name, parameter) # rest) sp =
     (if p_annotation parameter \<noteq> AnnMessage then
        (if p_kind parameter = POSITIONAL_ONLY then
           (Some (SyntaxError ''Parameters can not be postional only.''), sp)
         else if p_kind parameter = POSITIONAL_OR_KEYWORD \<or> p_kind parameter = KEYWORD_ONLY then
           (case parse_keyword_postional parameter parameter_name sp of
              Inl e \<Rightarrow> (Some e, sp)
            | Inr sp' \<Rightarrow> parse_parameter_loop rest sp')
         else parse_parameter_loop rest sp)
      else parse_parameter_loop rest sp)"

definition parse_parameters :: "bot \<Rightarrow> func \<Rightarrow> string option \<Rightarrow> (pyerror + string) \<times> bot" where
  "parse_parameters b command name =
     (if f_kind command = IsFunction \<or> f_kind command = IsMethod then
        (let name' = (case name of
                        None \<Rightarrow> f_name command
                      | Some n \<Rightarrow> if n = [] then f_name command else n);
             help = f_doc command;
             (err, sp) = parse_parameter_loop (f_params command) \<lparr>sp_help = help, sp_arguments = []\<rparr>;
             b' = b\<lparr>sub_parsers := (sub_parsers b)(Some name' \<mapsto> sp)\<rparr>
         in case err of
              Some e \<Rightarrow> (Inl e, b')
            | None \<Rightarrow> (Inr name', b'))
      else (Inl (SyntaxError ''Commands must be functions.''), b))"

fun attrs_of :: "callable \<Rightarrow> attrs" where
  "attrs_of (Plain f) = f_attrs f"
| "attrs_of (Wrapped a f) = a"
| "attrs_of (Activate identifier allow_selection) = no_attrs"

fun set_attrs :: "callable \<Rightarrow> attrs \<Rightarrow> callable" where
  "set_attrs (Plain f) a = Plain (f\<lparr>f_attrs := a\<rparr>)"
| "set_attrs (Wrapped a0 f) a = Wrapped a f"
| "set_attrs (Activate identifier allow_selection) a = Activate identifier allow_selection"

text \<open>
  \<open>getattr(source, attr)\<close> followed by \<open>setattr(dest, attr, value)\<close> on the
  attributes; \<open>None\<close> is the \<open>AttributeError\<close> of \<open>getattr\<close>.
\<close>

fun copy_attr :: "attr_name \<Rightarrow> attrs \<Rightarrow> attrs \<Rightarrow> attrs option" where
  "copy_attr A_bot_owner s d =
     (case bot_owner s of None \<Rightarrow> None | Some v \<Rightarrow> Some (d\<lparr>bot_owner := Some v\<rparr>))"
| "copy_attr A_check_failed s d =
     (case check_failed s of None \<Rightarrow> None | Some v \<Rightarrow> Some (d\<lparr>check_failed := Some v\<rparr>))"
| "copy_attr A_permissions_required s d =
     (case permissions_required s of
        None \<Rightarrow> None
      | Some v \<Rightarrow> Some (d\<lparr>permissions_required := Some v\<rparr>))"

text \<open>
  \<open>mirrorAttr\<close>, with the current value of the enclosing variable \<open>wrapped_command\<close>
  as first argument. The result is the returned object, paired with \<open>dest\<close> as
  \<open>setattr\<close> leaves it: on success the function returns \<open>source\<close>.
\<close>

definition mirrorAttr :: "callable \<Rightarrow> callable \<Rightarrow> callable \<Rightarrow> attr_name \<Rightarrow> callable \<times> callable" where
  "mirrorAttr wrapped_command source dest attr =
     (case copy_attr attr (attrs_of source) (attrs_of dest) of
        Some a \<Rightarrow> (source, set_attrs dest a)
      | None \<Rightarrow> (wrapped_command, dest))"

text \<open>
  \<open>Bot.command\<close>. Without a command both branches call \<open>partial\<close> on \<open>None\<close>, which
  raises \<open>TypeError\<close>. \<open>@wraps(command)\<close> gives the wrapper a copy of the attributes
  of \<open>command\<close>. Each call of \<open>mirrorAttr\<close> rebinds \<open>wrapped_command\<close> to what it
  returns; the last value is stored and returned.
\<close>

definition command :: "bot \<Rightarrow> func option \<Rightarrow> string option \<Rightarrow> (pyerror + callable) \<times> bot" where
  "command b cmd name =
     (case cmd of
        None \<Rightarrow> (Inl TypeError, b)
      | Some c \<Rightarrow>
          (case parse_parameters b c name of
             (Inl e, b') \<Rightarrow> (Inl e, b')
           | (Inr name', b') \<Rightarrow>
               (let w0 = Wrapped (f_attrs c) c;
                    w1 = fst (mirrorAttr w0 (Plain c) w0 A_bot_owner);
                    w2 = fst (mirrorAttr w1 (Plain c) w1 A_check_failed);
                    w3 = fst (mirrorAttr w2 (Plain c) w2 A_permissions_required)
                in (Inr w3, b'\<lparr>commands := (commands b')(Some name' \<mapsto> w3)\<rparr>))))"

text \<open>
  The decorators \<open>owner_only\<close>, \<open>permissions_required\<close> and \<open>admin\<close>, each applied
  to a command. \<open>set_permissions_required\<close> is the source's \<open>permissions_required\<close>,
  whose name the attribute of the same name takes here.
\<close>

definition owner_only :: "func \<Rightarrow> func" where
  "owner_only c = c\<lparr>f_attrs := (f_attrs c)\<lparr>bot_owner := Some True\<rparr>\<rparr>"

definition set_permissions_required :: "func \<Rightarrow> string list \<Rightarrow> string \<Rightarrow> func" where
  "set_permissions_required c permissions failed =
     c\<lparr>f_attrs := (f_attrs c)\<lparr>permissions_required := Some permissions, check_failed := Some failed\<rparr>\<rparr>"

definition default_message :: string where
  "default_message = ''{mention} that command requires admin privilges.''"

definition admin :: "func \<Rightarrow> string \<Rightarrow> func" where
  "admin c failed = set_permissions_required c [''administrator''] failed"

text \<open>
  \<open>__register_select_menu\<close>: \<open>register_menu\<close> applied to the decorated \<open>command\<close>.
  The menu is stored under \<open>name\<close>, the command under \<open>identifier\<close>.
\<close>

definition register_select_menu :: "bot \<Rightarrow> string list \<Rightarrow> string option \<Rightarrow> func \<Rightarrow> bot" where
  "register_select_menu b menu_options name cmd =
     (let allow_selection = True in
      if f_kind cmd = IsFunction then
        (let identifier = (case name of None \<Rightarrow> f_name cmd | Some n \<Rightarrow> n);
             help = f_doc cmd;
             b1 = b\<lparr>sub_parsers := (sub_parsers b)(Some identifier \<mapsto> \<lparr>sp_help = help, sp_arguments = []\<rparr>)\<rparr>;
             b2 = b1\<lparr>menus := (menus b1)(name \<mapsto> \<lparr>options = menu_options, handler = Some cmd\<rparr>)\<rparr>
         in b2\<lparr>commands := (commands b2)(Some identifier \<mapsto> Activate (Some identifier) allow_selection)\<rparr>)
      else b)"




section \<open>Menus\<close>

text \<open>\<open>str(x)\<close> for a value that is a string or \<open>None\<close>, as an f-string formats it.\<close>

definition str_opt :: "string option \<Rightarrow> string" where
  "str_opt x = (case x of None \<Rightarrow> ''None'' | Some s \<Rightarrow> s)"

text \<open>
  The two loops of \<open>__create_embed_menu\<close> over \<open>range(start, start + 5)\<close>:
  \<open>options[index]\<close> raises \<open>IndexError\<close> out of range.
\<close>

fun add_fields :: "string list \<Rightarrow> int list \<Rightarrow> embed \<Rightarrow> pyerror + embed" where
  "add_fields opts [] e = Inr e"
| "add_fields opts (index # rest) e =
     (case py_getitem opts index of
        Inl err \<Rightarrow> Inl err
      | Inr option \<Rightarrow> add_fields opts rest (e\<lparr>embed_fields := embed_fields e @ [(index + 1, option)]\<rparr>))"

fun add_lines :: "string list \<Rightarrow> int list \<Rightarrow> string \<Rightarrow> pyerror + string" where
  "add_lines opts [] d = Inr d"
| "add_lines opts (index # rest) d =
     (case py_getitem opts index of
        Inl err \<Rightarrow> Inl err
      | Inr option \<Rightarrow> add_lines opts rest (d @ option @ [CHR 0x0A]))"

definition create_embed_menu :: "bot \<Rightarrow> string option \<Rightarrow> int \<Rightarrow> bool \<Rightarrow> pyerror + embed" where
  "create_embed_menu b ttl pg allow_selection =
     (let start = (pg - 1) * int items_per_page;
          embed_title = user_name (bot_user b) @ '' menu: '' @ str_opt ttl;
          state = state_string pg (str_opt ttl) allow_selection;
          e = \<lparr>title = Some embed_title, footer_text = Some state, embed_fields = [], description = None\<rparr>
      in case menus b ttl of
           None \<Rightarrow> Inl KeyError
         | Some m \<Rightarrow>
             if allow_selection then add_fields (options m) (py_range start items_per_page) e
             else (case add_lines (options m) (py_range start items_per_page) [] of
                     Inl err \<Rightarrow> Inl err
                   | Inr d \<Rightarrow> Inr (e\<lparr>description := Some d\<rparr>)))"

text \<open>
  The loop of \<open>__find_menu\<close> over the messages that \<open>logs_from\<close> yields. The
  \<open>return\<close> statement belongs to the body of \<open>if len(message.embeds) == 1\<close>, so it
  also runs when the title does not start with the prefix, where \<open>page\<close> has no value
  yet. \<open>Inr None\<close> is the end of the loop: the function returns \<open>None\<close>.
\<close>

fun find_menu_loop :: "user \<Rightarrow> string \<Rightarrow> message list \<Rightarrow> pyerror + (message \<times> int \<times> string \<times> bool) option" where
  "find_menu_loop me title_prefix [] = Inr None"
| "find_menu_loop me title_prefix (m # rest) =
     (if user_id (author m) = user_id me then
        (if length (embeds m) = 1 then
           (case title (hd (embeds m)) of
              None \<Rightarrow> Inl KeyError
            | Some t \<Rightarrow>
                if startswith t title_prefix then
                  (case footer_text (hd (embeds m)) of
                     None \<Rightarrow> Inl KeyError
                   | Some footer \<Rightarrow>
                       (case decode_footer footer of
                          None \<Rightarrow> Inl (SyntaxError ''Invaild footer detected.'')
                        | Some (pg, lst, allow_selection) \<Rightarrow> Inr (Some (m, pg, lst, allow_selection))))
                else Inl UnboundLocalError)
         else find_menu_loop me title_prefix rest)
      else find_menu_loop me title_prefix rest)"

definition find_menu :: "bot \<Rightarrow> world \<Rightarrow> message \<Rightarrow> pyerror + (message \<times> int \<times> string \<times> bool) option" where
  "find_menu b w m =
     find_menu_loop (bot_user b) (user_name (bot_user b) @ '' menu:'') (logs_from w (channel m) 50 m)"

text \<open>
  The navigation commands. Each unpacks the result of \<open>__find_menu\<close> into four names,
  which raises \<open>TypeError\<close> when the result is \<open>None\<close>. The first component of a
  result is the exception that leaves the function, if any.
\<close>

definition page :: "bot \<Rightarrow> message \<Rightarrow> int \<Rightarrow> world \<Rightarrow> pyerror option \<times> world" where
  "page b m number_of_pages w =
     (case find_menu b w m of
        Inl e \<Rightarrow> (Some e, w)
      | Inr None \<Rightarrow> (Some TypeError, w)
      | Inr (Some (menu, pg, lst, allow_selection)) \<Rightarrow>
          (let next_page = pg + number_of_pages in
           case create_embed_menu b (Some lst) next_page allow_selection of
             Inl e \<Rightarrow> (Some e, w)
           | Inr new_embed \<Rightarrow> (None, delete_message m (edit_message menu new_embed w))))"

definition next_cmd :: "bot \<Rightarrow> message \<Rightarrow> world \<Rightarrow> pyerror option \<times> world" where
  "next_cmd b m w = page b m 1 w"

definition back_cmd :: "bot \<Rightarrow> message \<Rightarrow> world \<Rightarrow> pyerror option \<times> world" where
  "back_cmd b m w = page b m (- 1) w"

definition select :: "bot \<Rightarrow> message \<Rightarrow> int \<Rightarrow> world \<Rightarrow> pyerror option \<times> world" where
  "select b m choice w =
     (case find_menu b w m of
        Inl e \<Rightarrow> (Some e, w)
      | Inr None \<Rightarrow> (Some TypeError, w)
      | Inr (Some (menu, pg, lst, allow_selection)) \<Rightarrow>
          if \<not> allow_selection then (Some (SyntaxError ''That menu does not allow selection.''), w)
          else if 0 \<le> choice \<and> choice < int (length lst) then
            (case menus b (Some lst) of
               None \<Rightarrow> (Some KeyError, w)
             | Some entry \<Rightarrow>
                 (case py_getitem (options entry) choice of
                    Inl e \<Rightarrow> (Some e, w)
                  | Inr selection \<Rightarrow>
                      (case handler entry of
                         None \<Rightarrow> (Some KeyError, w)
                       | Some h \<Rightarrow>
                           (None, delete_messages [m, menu]
                                    (w\<lparr>calls := calls w @ [Selected (f_name h) selection]\<rparr>)))))
          else (None, w))"

definition dismiss :: "bot \<Rightarrow> message \<Rightarrow> world \<Rightarrow> pyerror option \<times> world" where
  "dismiss b m w =
     (case find_menu b w m of
        Inl e \<Rightarrow> (Some e, w)
      | Inr None \<Rightarrow> (Some TypeError, w)
      | Inr (Some (menu, pg, lst, allow_selection)) \<Rightarrow> (None, delete_messages [menu, m] w))"

text \<open>The closure \<open>activate_menu\<close> of both registration functions.\<close>

definition activate_menu :: "bot \<Rightarrow> string option \<Rightarrow> bool \<Rightarrow> message \<Rightarrow> world \<Rightarrow> pyerror option \<times> world" where
  "activate_menu b identifier allow_selection m w =
     (case create_embed_menu b identifier 1 allow_selection of
        Inl e \<Rightarrow> (Some e, w)
      | Inr embeded_menu \<Rightarrow>
          (None, delete_message m (send_message (bot_user b) (channel m) [] [embeded_menu] w)))"

section \<open>Dispatch\<close>

text \<open>
  Calling what \<open>self.commands\<close> holds with \<open>(message, parsed_args)\<close>.
  \<open>wrapped_command\<close> deletes \<open>command\<close> from the namespace and calls the function it
  closes over with the remaining attributes as keyword arguments. A function stored as
  it was given receives the namespace itself. The body of a user's handler is outside
  the source: its call is recorded. The built-in methods take \<open>message\<close> alone, and
  \<open>select\<close> takes \<open>choice\<close> as well, which it compares with integers.
\<close>

fun call_builtin :: "bot \<Rightarrow> builtin \<Rightarrow> message \<Rightarrow> (string \<times> argval) list \<Rightarrow> world \<Rightarrow> pyerror option \<times> world" where
  "call_builtin b Next m kw w = (if kw = [] then next_cmd b m w else (Some TypeError, w))"
| "call_builtin b Back m kw w = (if kw = [] then back_cmd b m w else (Some TypeError, w))"
| "call_builtin b Dismiss m kw w = (if kw = [] then dismiss b m w else (Some TypeError, w))"
| "call_builtin b Select m kw w =
     (case kw of
        [(k, VInt choice)] \<Rightarrow> if k = ''choice'' then select b m choice w else (Some TypeError, w)
      | _ \<Rightarrow> (Some TypeError, w))"

definition call_func :: "bot \<Rightarrow> func \<Rightarrow> message \<Rightarrow> callargs \<Rightarrow> world \<Rightarrow> pyerror option \<times> world" where
  "call_func b f m args w =
     (case f_code f of
        UserCode \<Rightarrow> (None, w\<lparr>calls := calls w @ [Called (f_name f) m args]\<rparr>)
      | BuiltinCode bi \<Rightarrow>
          (case args of
             Raw ns \<Rightarrow> (Some TypeError, w)
           | Unpacked kw \<Rightarrow> call_builtin b bi m kw w))"

fun invoke :: "bot \<Rightarrow> callable \<Rightarrow> message \<Rightarrow> namespace \<Rightarrow> world \<Rightarrow> pyerror option \<times> world" where
  "invoke b (Wrapped a f) m parsed_args w = call_func b f m (Unpacked (ns_args parsed_args)) w"
| "invoke b (Plain f) m parsed_args w = call_func b f m (Raw parsed_args) w"
| "invoke b (Activate identifier allow_selection) m parsed_args w =
     activate_menu b identifier allow_selection m w"

text \<open>
  \<open>check_permissions\<close>. \<open>first_missing\<close> is the loop over the required permissions:
  \<open>getattr\<close> on the author's permissions raises \<open>AttributeError\<close> for a name that is
  not an attribute. Every \<open>AttributeError\<close> inside the \<open>try\<close> makes the check return
  \<open>True\<close>. The result of a check is \<open>Some\<close> of a boolean, or \<open>None\<close> for Python's
  \<open>None\<close>.
\<close>

datatype loop_result = AllHeld | Missing | NoAttribute

fun first_missing :: "(string \<times> bool) list \<Rightarrow> string list \<Rightarrow> loop_result" where
  "first_missing author_permissions [] = AllHeld"
| "first_missing author_permissions (permission # rest) =
     (case map_of author_permissions permission of
        None \<Rightarrow> NoAttribute
      | Some held \<Rightarrow> if \<not> held then Missing else first_missing author_permissions rest)"

definition check_permissions :: "env \<Rightarrow> bot \<Rightarrow> callable \<Rightarrow> message \<Rightarrow> world \<Rightarrow> (pyerror + bool option) \<times> world" where
  "check_permissions ev b cmd m w =
     (case permissions_required (attrs_of cmd) of
        None \<Rightarrow> (Inr (Some True), w)
      | Some perms \<Rightarrow>
          if perms = [] then (Inr (Some True), w)
          else (case server_permissions (author m) of
                  None \<Rightarrow> (Inr (Some True), w)
                | Some author_permissions \<Rightarrow>
                    (case first_missing author_permissions perms of
                       AllHeld \<Rightarrow> (Inr (Some True), w)
                     | NoAttribute \<Rightarrow> (Inr (Some True), w)
                     | Missing \<Rightarrow>
                         (let name = (case nick (author m) of
                                        Some n \<Rightarrow> n
                                      | None \<Rightarrow> Some (user_name (author m)))
                          in case check_failed (attrs_of cmd) of
                               None \<Rightarrow> (Inr (Some True), w)
                             | Some template \<Rightarrow>
                                 (case str_format ev template name (mention (author m)) of
                                    Inl e \<Rightarrow> if e = AttributeError then (Inr (Some True), w) else (Inl e, w)
                                  | Inr message_text \<Rightarrow>
                                      (Inr (Some False),
                                       send_message (bot_user b) (channel m) message_text [] w))))))"

text \<open>
  \<open>check_owner\<close>. When \<open>command.bot_owner\<close> exists and is false the function reaches
  its end and returns \<open>None\<close>.
\<close>

definition owner_text :: "string \<Rightarrow> string" where
  "owner_text mention_text =
     mention_text @ '' that command is only accesible to the owner of the bot.''"

definition check_owner :: "env \<Rightarrow> bot \<Rightarrow> callable \<Rightarrow> message \<Rightarrow> world \<Rightarrow> (pyerror + bool option) \<times> world" where
  "check_owner ev b cmd m w =
     (case bot_owner (attrs_of cmd) of
        None \<Rightarrow> (Inr (Some True), w)
      | Some flag \<Rightarrow>
          if flag then
            (if (case app_owner b of None \<Rightarrow> False | Some ow \<Rightarrow> user_id (author m) = user_id ow)
             then (Inr (Some True), w)
             else (Inr (Some False),
                   send_message (bot_user b) (channel m) (owner_text (mention (author m))) [] w))
          else (Inr None, w))"

text \<open>
  \<open>self.permission_checks\<close> and the loop of \<open>process_message\<close> over it: every check
  is awaited, and a falsy result clears \<open>passed\<close>.
\<close>

type_synonym check = "env \<Rightarrow> bot \<Rightarrow> callable \<Rightarrow> message \<Rightarrow> world \<Rightarrow> (pyerror + bool option) \<times> world"

definition permission_checks :: "check list" where
  "permission_checks = [check_permissions, check_owner]"

fun run_checks :: "check list \<Rightarrow> env \<Rightarrow> bot \<Rightarrow> callable \<Rightarrow> message \<Rightarrow> bool \<Rightarrow> world \<Rightarrow> (pyerror + bool) \<times> world" where
  "run_checks [] ev b cmd m passed w = (Inr passed, w)"
| "run_checks (chk # rest) ev b cmd m passed w =
     (case chk ev b cmd m w of
        (Inl e, w') \<Rightarrow> (Inl e, w')
      | (Inr r, w') \<Rightarrow> run_checks rest ev b cmd m (if r = Some True then passed else False) w')"

text \<open>
  \<open>process_message\<close>. \<open>dispatch\<close> is the body of the \<open>try\<close>; a \<open>SyntaxError\<close> that
  leaves it is sent to the author, any other exception leaves \<open>process_message\<close>.
\<close>

definition dispatch :: "env \<Rightarrow> bot \<Rightarrow> message \<Rightarrow> world \<Rightarrow> pyerror option \<times> world" where
  "dispatch ev b m w =
     (let message_no_prefix = lstrip (content m) (prefix b) in
      case shlex_split ev message_no_prefix of
        Inl e \<Rightarrow> (Some e, w)
      | Inr list_arguments \<Rightarrow>
          (case parse_args ev (sub_parsers b) list_arguments of
             Inl e \<Rightarrow> (Some e, w)
           | Inr parsed_args \<Rightarrow>
               (case commands b (ns_command parsed_args) of
                  None \<Rightarrow> (None, w)
                | Some cmd \<Rightarrow>
                    (case run_checks permission_checks ev b cmd m True w of
                       (Inl e, w') \<Rightarrow> (Some e, w')
                     | (Inr passed, w') \<Rightarrow>
                         if passed then invoke b cmd m parsed_args w' else (None, w')))))"

definition process_message :: "env \<Rightarrow> bot \<Rightarrow> message \<Rightarrow> world \<Rightarrow> pyerror option \<times> world" where
  "process_message ev b m w =
     (if \<not> user_id (author m) = user_id (bot_user b) then
        (if startswith (content m) (prefix b) then
           (case dispatch ev b m w of
              (Some (SyntaxError error_message), w') \<Rightarrow>
                (None, send_message (bot_user b) (Direct (user_id (author m))) error_message [] w')
            | r \<Rightarrow> r)
         else (None, w))
      else (None, w))"

text \<open>
  \<open>on_message\<close> calls the bound method \<open>self.process_message\<close> with the two
  arguments \<open>self\<close> and \<open>message\<close>. The method takes one argument besides the bound
  \<open>self\<close>, so binding the arguments raises \<open>TypeError\<close> at the call. A call that binds
  yields a coroutine, which \<open>on_message\<close> does not await: the body of
  \<open>process_message\<close> does not run in either case.
\<close>

datatype pyarg = ArgSelf | ArgMessage message

fun bind_process_message :: "pyarg list \<Rightarrow> pyerror + message" where
  "bind_process_message [ArgMessage m] = Inr m"
| "bind_process_message args = Inl TypeError"

definition on_message :: "env \<Rightarrow> bot \<Rightarrow> message \<Rightarrow> world \<Rightarrow> pyerror option \<times> world" where
  "on_message ev b m w =
     (case bind_process_message [ArgSelf, ArgMessage m] of
        Inl e \<Rightarrow> (Some e, w)
      | Inr m' \<Rightarrow> (None, w))"

section \<open>Construction\<close>

text \<open>
  \<open>Bot.__init__\<close>: the empty dictionaries, then \<open>self.command(command, command_name)\<close>
  for the four built-in methods in the order of \<open>self.builtins\<close>. The title only
  names the parser in help texts and is left out.
\<close>

definition message_parameter :: "string \<times> parameter" where
  "message_parameter = (''message'', \<lparr>p_annotation = AnnMessage, p_kind = POSITIONAL_OR_KEYWORD\<rparr>)"

definition builtin_method :: "string \<Rightarrow> string \<Rightarrow> (string \<times> parameter) list \<Rightarrow> builtin \<Rightarrow> func" where
  "builtin_method name doc params bi =
     \<lparr>f_name = name, f_doc = Some doc, f_kind = IsMethod, f_params = params,
      f_attrs = no_attrs, f_code = BuiltinCode bi\<rparr>"

definition builtins :: "(string \<times> func) list" where
  "builtins =
     [(''next'', builtin_method ''next'' ''Go to the next page on the nearest menu.''
                   [message_parameter] Next),
      (''back'', builtin_method ''back'' ''Go to the next page on the nearest menu.''
                   [message_parameter] Back),
      (''select'', builtin_method ''select'' ''Select a menu option.''
                   [message_parameter,
                    (''choice'', \<lparr>p_annotation = AnnInt, p_kind = POSITIONAL_OR_KEYWORD\<rparr>)] Select),
      (''dismiss'', builtin_method ''dismiss'' ''Dismiss the nearest menu.''
                   [message_parameter] Dismiss)]"

fun register_all :: "(string \<times> func) list \<Rightarrow> bot \<Rightarrow> pyerror + bot" where
  "register_all [] b = Inr b"
| "register_all ((command_name, c) # rest) b =
     (case command b (Some c) (Some command_name) of
        (Inl e, b') \<Rightarrow> Inl e
      | (Inr w, b') \<Rightarrow> register_all rest b')"

definition empty_bot :: "user \<Rightarrow> user option \<Rightarrow> string \<Rightarrow> bot" where
  "empty_bot me owner pfx =
     \<lparr>bot_user = me, app_owner = owner, prefix = pfx,
      commands = Map.empty, menus = Map.empty, sub_parsers = Map.empty\<rparr>"

definition init :: "user \<Rightarrow> user option \<Rightarrow> string \<Rightarrow> pyerror + bot" where
  "init me owner pfx = register_all builtins (empty_bot me owner pfx)"

text \<open>
  The bot after construction. Registering the built-in commands raises nothing
  (lemma \<open>init_started\<close> below), so the second branch is never taken.
\<close>

definition started :: "user \<Rightarrow> user option \<Rightarrow> string \<Rightarrow> bot" where
  "started me owner pfx =
     (case init me owner pfx of Inr b \<Rightarrow> b | Inl e \<Rightarrow> empty_bot me owner pfx)"

section \<open>Concrete inputs\<close>

text \<open>
  A small stand-in for the two parsing libraries, used where a statement is evaluated on
  a concrete message: the command line is split at spaces, the first word selects the
  sub-parser and the remaining words are bound to its arguments in order, converted by
  the registered type.
\<close>

fun split_words :: "string \<Rightarrow> string \<Rightarrow> string list" where
  "split_words cur [] = (if cur = [] then [] else [cur])"
| "split_words cur (c # cs) =
     (if c = CHR '' '' then (if cur = [] then split_words [] cs else cur # split_words [] cs)
      else split_words (cur @ [c]) cs)"

definition convert :: "argument \<Rightarrow> string \<Rightarrow> string \<times> argval" where
  "convert a tok =
     (arg_name a, case arg_type a of StrT \<Rightarrow> VStr tok | IntT \<Rightarrow> VInt (py_int tok))"

definition positional_parse :: "(string option \<Rightarrow> subparser option) \<Rightarrow> string list \<Rightarrow> pyerror + namespace" where
  "positional_parse sp toks =
     (case toks of
        [] \<Rightarrow> Inl (SyntaxError ''usage'')
      | t # rest \<Rightarrow>
          (case sp (Some t) of
             None \<Rightarrow> Inl (SyntaxError ''usage'')
           | Some p \<Rightarrow>
               if length rest = length (sp_arguments p)
               then Inr \<lparr>ns_command = Some t, ns_args = map2 convert (sp_arguments p) rest\<rparr>
               else Inl (SyntaxError ''usage'')))"

definition example_env :: env where
  "example_env =
     \<lparr>shlex_split = (\<lambda>s. Inr (split_words [] s)),
      parse_args = positional_parse,
      str_format = (\<lambda>template name mention_text. Inr (mention_text @ '': '' @ template))\<rparr>"

definition bot_me :: user where
  "bot_me = \<lparr>user_id = 1, user_name = ''bot'', mention = ''<@1>'', nick = None,
             server_permissions = None\<rparr>"

definition alice :: user where
  "alice = \<lparr>user_id = 2, user_name = ''alice'', mention = ''<@2>'', nick = Some (Some ''Al''),
            server_permissions = Some [(''administrator'', False)]\<rparr>"

definition carol :: user where
  "carol = \<lparr>user_id = 3, user_name = ''carol'', mention = ''<@3>'', nick = None,
            server_permissions = Some [(''administrator'', True)]\<rparr>"

definition said :: "user \<Rightarrow> nat \<Rightarrow> string \<Rightarrow> message" where
  "said u i txt = \<lparr>msg_id = i, author = u, channel = Channel 7, content = txt, embeds = []\<rparr>"

text \<open>The transport stores an inbound message before it hands it to the bot.\<close>

definition receive :: "message \<Rightarrow> world \<Rightarrow> world" where
  "receive m w = w\<lparr>log := m # log w, next_id := Suc (msg_id m)\<rparr>"

definition quiet :: world where
  "quiet = \<lparr>log = [], next_id = 10, calls = []\<rparr>"

definition pick :: func where
  "pick = \<lparr>f_name = ''pick'', f_doc = None, f_kind = IsFunction,
           f_params = [(''selection'', \<lparr>p_annotation = AnnOther, p_kind = POSITIONAL_OR_KEYWORD\<rparr>)],
           f_attrs = no_attrs, f_code = UserCode\<rparr>"

definition fruits :: "string list" where
  "fruits = [''apple'', ''banana'', ''cherry'', ''date'', ''egg'']"

definition fruits_bot :: bot where
  "fruits_bot = register_select_menu (started bot_me None ''!'') fruits (Some ''fruits'') pick"

definition fruits_menu :: message where
  "fruits_menu =
     \<lparr>msg_id = 11, author = bot_me, channel = Channel 7, content = [],
      embeds = [\<lparr>title = Some ''bot menu: fruits'',
                 footer_text = Some ''Page: 1 List: fruits Selection: True'',
                 embed_fields = [(1, ''apple''), (2, ''banana''), (3, ''cherry''),
                                 (4, ''date''), (5, ''egg'')],
                 description = None\<rparr>]\<rparr>"

definition ab_bot :: bot where
  "ab_bot = register_select_menu (started bot_me None ''!'') fruits (Some ''ab'') pick"

definition ab_menu :: message where
  "ab_menu =
     \<lparr>msg_id = 11, author = bot_me, channel = Channel 7, content = [],
      embeds = [\<lparr>title = Some ''bot menu: ab'',
                 footer_text = Some ''Page: 1 List: ab Selection: True'',
                 embed_fields = [(1, ''apple''), (2, ''banana''), (3, ''cherry''),
                                 (4, ''date''), (5, ''egg'')],
                 description = None\<rparr>]\<rparr>"

definition notice :: message where
  "notice =
     \<lparr>msg_id = 12, author = bot_me, channel = Channel 7, content = [],
      embeds = [\<lparr>title = Some ''Reminder'', footer_text = None, embed_fields = [],
                 description = Some ''Stand-up at ten''\<rparr>]\<rparr>"

definition greet :: func where
  "greet = \<lparr>f_name = ''greet'', f_doc = Some ''Say hello.'', f_kind = IsFunction,
            f_params = [(''message'', \<lparr>p_annotation = AnnMessage, p_kind = POSITIONAL_OR_KEYWORD\<rparr>),
                        (''name'', \<lparr>p_annotation = AnnOther, p_kind = POSITIONAL_OR_KEYWORD\<rparr>)],
            f_attrs = no_attrs, f_code = UserCode\<rparr>"

definition guarded :: func where
  "guarded = owner_only (admin greet default_message)"

definition guarded_bot :: bot where
  "guarded_bot = snd (command (started bot_me (Some carol) ''!'') (Some guarded) None)"

definition after_activation :: world where
  "after_activation =
     snd (process_message example_env fruits_bot (said alice 10 ''!fruits'')
            (receive (said alice 10 ''!fruits'') quiet))"

definition after_dismiss :: world where
  "after_dismiss =
     snd (process_message example_env fruits_bot (said alice 12 ''!dismiss'')
            (receive (said alice 12 ''!dismiss'') after_activation))"

definition second_page :: embed where
  "second_page = \<lparr>title = Some ''bot menu: fruits'',
                  footer_text = Some ''Page: 2 List: fruits Selection: True'',
                  embed_fields = [], description = None\<rparr>"

text \<open>
  A channel without any menu: two messages of a user and a plain reply of the bot.
\<close>

definition pong :: message where
  "pong = \<lparr>msg_id = 11, author = bot_me, channel = Channel 7, content = ''pong'', embeds = []\<rparr>"

definition chatter :: world where
  "chatter = \<lparr>log = [said carol 12 ''thanks'', pong, said carol 10 ''!ping''], next_id = 13, calls = []\<rparr>"



section \<open>Construction succeeds\<close>

lemma init_started: "init me owner pfx = Inr (started me owner pfx)"
  unfolding started_def
  by (cases "init me owner pfx")
     (simp_all add: init_def builtins_def command_def parse_parameters_def builtin_method_def
        message_parameter_def mirrorAttr_def no_attrs_def parse_keyword_postional_def
        call_type_def Let_def)

section \<open>The entry point\<close>

text \<open>
  C1 says that delivering a well-formed command message through \<open>on_message\<close> invokes
  the command's handler exactly once. In the code \<open>on_message\<close> passes \<open>self\<close> a
  second time to the bound method and does not await the result, so for every bot,
  message and world the call raises \<open>TypeError\<close> and leaves the world, and with it
  the record of handler calls, as it was: no handler is invoked.
\<close>

theorem on_message_raises_type_error: "on_message ev b m w = (Some TypeError, w)"
  by (simp add: on_message_def)

text \<open>
  Called directly, \<open>process_message\<close> does what C1 describes: the handler \<open>greet\<close>
  is called once, with the parsed argument as a keyword.
\<close>

lemma process_message_calls_greet:
  "process_message example_env (snd (command (started bot_me None ''!'') (Some greet) None))
     (said alice 10 ''!greet Bob'') (receive (said alice 10 ''!greet Bob'') quiet) =
   (None, (receive (said alice 10 ''!greet Bob'') quiet)
            \<lparr>calls := [Called ''greet'' (said alice 10 ''!greet Bob'')
                         (Unpacked [(''name'', VStr ''Bob'')])]\<rparr>)"
  by code_simp

section \<open>The footer round trip\<close>

text \<open>
  C2 says that every state with a page of at least 1 is decoded from its own footer.
  The footer that \<open>__create_embed_menu\<close> writes for page 10 of the menu \<open>fruits\<close> is
  \<open>Page: 10 List: fruits Selection: True\<close>; the state regex admits the digits 1 to 9
  only, so the footer does not match and \<open>__find_menu\<close> raises instead of decoding it.
\<close>

theorem tenth_page_footer_rejected: "decode_footer (state_string 10 ''fruits'' True) = None"
  by code_simp

text \<open>
  The round trip does hold for the pages whose decimal form has no digit 0, for every
  non-empty name over the letters and the underscore.
\<close>

lemma digit_val_digit_char: "d < 10 \<Longrightarrow> digit_val (digit_char d) = int d"
proof -
  assume "d < 10"
  then have "d \<in> set [0..<10]" by simp
  moreover have "\<forall>k \<in> set [0..<10]. digit_val (digit_char k) = int k" by code_simp
  ultimately show ?thesis by blast
qed

lemma py_int_snoc: "py_int (xs @ [c]) = 10 * py_int xs + digit_val c"
  by (simp add: py_int_def)

lemma py_int_str_nat: "py_int (str_nat n) = int n"
proof (induction n rule: str_nat.induct)
  case (1 n)
  show ?case
  proof (cases "n < 10")
    case True
    then show ?thesis
      by (subst str_nat.simps) (simp add: py_int_def digit_val_digit_char)
  next
    case False
    have "py_int (str_nat n) = 10 * py_int (str_nat (n div 10)) + digit_val (digit_char (n mod 10))"
      using False by (subst str_nat.simps) (simp add: py_int_snoc)
    also have "\<dots> = 10 * int (n div 10) + int (n mod 10)"
      using "1.IH" [OF False] by (simp add: digit_val_digit_char)
    also have "\<dots> = int n" by presburger
    finally show ?thesis .
  qed
qed

lemma str_nat_nonempty: "str_nat n \<noteq> []"
  by (subst str_nat.simps) simp

lemma takeWhile_run: "list_all P xs \<Longrightarrow> \<not> P d \<Longrightarrow> takeWhile P (xs @ d # ys) = xs"
  by (induction xs) auto

lemma dropWhile_run: "list_all P xs \<Longrightarrow> \<not> P d \<Longrightarrow> dropWhile P (xs @ d # ys) = d # ys"
  by (induction xs) auto

lemma footer_roundtrip_without_zero:
  assumes "0 \<le> p" and "list_all is_digit19 (py_str p)"
      and "name \<noteq> []" and "list_all is_name_char name"
  shows "decode_footer (state_string p name sel) = Some (p, name, sel)"
proof -
  have s: "py_str p = str_nat (nat p)" using assms(1) by (simp add: py_str_def)
  have d: "list_all is_digit19 (str_nat (nat p))" using assms(2) s by simp
  have sp1: "\<not> is_digit19 (CHR '' '')" by (simp add: is_digit19_def)
  have sp2: "\<not> is_name_char (CHR '' '')" by (simp add: is_name_char_def)
  have i: "py_int (str_nat (nat p)) = p" using assms(1) by (simp add: py_int_str_nat)
  show ?thesis
    using assms(3,4) d
    by (cases sel)
       (simp_all add: decode_footer_def state_string_def state_regex_fullmatch_def
          strip_literal_def startswith_def s str_bool_def takeWhile_run dropWhile_run
          sp1 sp2 str_nat_nonempty i Let_def)
qed

section \<open>Reconstruction\<close>

text \<open>
  C3 says that a bot-authored message with one embed whose title is not a menu title is
  skipped by the scan. With such a message (\<open>notice\<close>) between the trigger and the
  menu, \<open>__find_menu\<close> reaches its \<open>return\<close> statement with \<open>page\<close> unassigned and
  raises \<open>UnboundLocalError\<close>; the menu behind it is not returned.
\<close>

theorem find_menu_raises_on_other_embed:
  "find_menu fruits_bot
     \<lparr>log = [said alice 13 ''!dismiss'', notice, fruits_menu], next_id = 14, calls = []\<rparr>
     (said alice 13 ''!dismiss'') = Inl UnboundLocalError"
  by code_simp

text \<open>
  The steps of the scan in general: a message that is not the bot's, or has not exactly
  one embed, is passed over; a bot message with one embed and a menu title ends the scan
  with its decoded footer or with \<open>SyntaxError\<close>; a bot message with one embed and
  another title ends it with \<open>UnboundLocalError\<close>. At most 50 messages are scanned.
\<close>

lemma find_menu_loop_skips:
  "\<not> (user_id (author m) = user_id me \<and> length (embeds m) = 1) \<Longrightarrow>
   find_menu_loop me tp (m # rest) = find_menu_loop me tp rest"
  by auto

lemma find_menu_loop_decodes:
  "user_id (author m) = user_id me \<Longrightarrow> embeds m = [e] \<Longrightarrow> title e = Some t \<Longrightarrow>
   startswith t tp \<Longrightarrow> footer_text e = Some footer \<Longrightarrow>
   find_menu_loop me tp (m # rest) =
     (case decode_footer footer of
        None \<Rightarrow> Inl (SyntaxError ''Invaild footer detected.'')
      | Some (pg, lst, allow_selection) \<Rightarrow> Inr (Some (m, pg, lst, allow_selection)))"
  by simp

lemma find_menu_loop_other_title:
  "user_id (author m) = user_id me \<Longrightarrow> embeds m = [e] \<Longrightarrow> title e = Some t \<Longrightarrow>
   \<not> startswith t tp \<Longrightarrow> find_menu_loop me tp (m # rest) = Inl UnboundLocalError"
  by simp

lemma logs_from_window: "length (logs_from w ch 50 before) \<le> 50"
  by (simp add: logs_from_def)

section \<open>Registration\<close>

text \<open>
  C4 says that \<open>command\<close> stores the wrapper, which unpacks the parsed arguments. For
  the handler \<open>guarded\<close>, which carries all three attributes, \<open>mirrorAttr\<close> returns
  its \<open>source\<close>: \<open>command\<close> returns and stores the handler itself, and a dispatch by
  the owner calls it with the namespace, \<open>command\<close> field included, as second
  positional argument.
\<close>

theorem command_stores_unwrapped_handler:
  "fst (command (started bot_me (Some carol) ''!'') (Some guarded) None) = Inr (Plain guarded) \<and>
   commands guarded_bot (Some ''greet'') = Some (Plain guarded) \<and>
   process_message example_env guarded_bot (said carol 10 ''!greet Bob'')
     (receive (said carol 10 ''!greet Bob'') quiet) =
   (None, (receive (said carol 10 ''!greet Bob'') quiet)
            \<lparr>calls := [Called ''greet'' (said carol 10 ''!greet Bob'')
                         (Raw \<lparr>ns_command = Some ''greet'',
                               ns_args = [(''name'', VStr ''Bob'')]\<rparr>)]\<rparr>)"
  by code_simp

text \<open>
  In general \<open>command\<close> returns the wrapper exactly for the handlers that carry none of
  the three attributes, and the handler itself as soon as it carries one.
\<close>

lemma command_without_metadata:
  assumes "parse_parameters b c name = (Inr n, b')" and "f_attrs c = no_attrs"
  shows "fst (command b (Some c) name) = Inr (Wrapped no_attrs c)"
  using assms by (simp add: command_def mirrorAttr_def no_attrs_def Let_def)

lemma command_with_metadata:
  assumes "parse_parameters b c name = (Inr n, b')"
      and "bot_owner (f_attrs c) \<noteq> None \<or> check_failed (f_attrs c) \<noteq> None \<or>
           permissions_required (f_attrs c) \<noteq> None"
  shows "fst (command b (Some c) name) = Inr (Plain c)"
  using assms
  by (cases "bot_owner (f_attrs c)"; cases "check_failed (f_attrs c)";
      cases "permissions_required (f_attrs c)")
     (simp_all add: command_def mirrorAttr_def Let_def)

text \<open>
  C8 says that a parameter annotated with \<open>True\<close> or \<open>False\<close> becomes a switch that
  takes no value. In \<open>__parse_keyword_postional\<close> the name \<open>type\<close> is bound to
  \<open>str\<close>, the test for a boolean never succeeds, and the parameter is registered with
  the action \<open>store\<close> and the type \<open>str\<close>: an argument that consumes one value.
\<close>

theorem flag_annotation_registers_store:
  "parse_keyword_postional \<lparr>p_annotation = AnnBool flag, p_kind = k\<rparr> name sp =
     Inr (add_argument sp name ''store'' None StrT)"
  by (simp add: parse_keyword_postional_def call_type_def)

section \<open>Selection\<close>

text \<open>
  C6 says that a choice below the number of options invokes the selection handler and
  deletes both messages. \<open>select\<close> compares the choice with the length of the menu's
  name: on the five-option menu named \<open>ab\<close> the command \<open>select 3\<close> calls no handler
  and deletes nothing.
\<close>

theorem select_bounds_choice_by_name_length:
  "process_message example_env ab_bot (said alice 12 ''!select 3'')
     (receive (said alice 12 ''!select 3'') \<lparr>log = [ab_menu], next_id = 12, calls = []\<rparr>) =
   (None, receive (said alice 12 ''!select 3'') \<lparr>log = [ab_menu], next_id = 12, calls = []\<rparr>)"
  by code_simp

text \<open>A choice at or beyond the length of the menu's name does nothing, whatever the options.\<close>

lemma select_beyond_name_length:
  "find_menu b w m = Inr (Some (menu, pg, lst, True)) \<Longrightarrow> int (length lst) \<le> choice \<Longrightarrow>
   select b m choice w = (None, w)"
  by (simp add: select_def)

section \<open>No menu in the window\<close>

lemma find_menu_loop_none:
  "\<forall>x \<in> set ms. \<not> (user_id (author x) = user_id me \<and> length (embeds x) = 1) \<Longrightarrow>
   find_menu_loop me tp ms = Inr None"
  by (induction ms) auto

text \<open>
  C7 as stated: a navigation command that finds no menu completes without a fault. It
  fails on the code. After the menu \<open>fruits\<close> was activated and dismissed once, the
  channel is empty; a second \<open>dismiss\<close> raises \<open>TypeError\<close>, which leaves
  \<open>process_message\<close>.
\<close>

theorem second_dismiss_counterexample:
  "after_dismiss = \<lparr>log = [], next_id = 13, calls = []\<rparr> \<and>
   process_message example_env fruits_bot (said alice 13 ''!dismiss'')
     (receive (said alice 13 ''!dismiss'') after_dismiss) =
   (Some TypeError, receive (said alice 13 ''!dismiss'') after_dismiss)"
  by code_simp

lemma run_checks_no_attrs:
  "attrs_of cmd = no_attrs \<Longrightarrow>
   run_checks permission_checks ev b cmd m True w = (Inr True, w)"
  by (simp add: permission_checks_def check_permissions_def check_owner_def no_attrs_def)

lemma call_builtin_without_menu:
  assumes "find_menu b w m = Inr None"
  shows "call_builtin b bi m kw w = (Some TypeError, w)"
  using assms
  by (cases bi)
     (auto simp: next_cmd_def back_cmd_def page_def select_def dismiss_def
           split: list.splits prod.splits argval.splits)

text \<open>
  C7 as amended: when the 50 messages before the trigger hold no message of the bot with
  exactly one embed, \<open>__find_menu\<close> returns \<open>None\<close>, and each of \<open>next\<close>, \<open>back\<close>,
  \<open>select\<close> and \<open>dismiss\<close> raises \<open>TypeError\<close> on unpacking it; no message is
  edited or deleted and no handler is called. When such a command arrives through
  \<open>process_message\<close> (a message of a user that starts with the prefix and parses to a
  registered built-in command), the \<open>TypeError\<close> leaves \<open>process_message\<close> and the
  world is unchanged.
\<close>

theorem navigation_without_menu_raises:
  assumes "\<forall>x \<in> set (logs_from w (channel m) 50 m).
             \<not> (user_id (author x) = user_id (bot_user b) \<and> length (embeds x) = 1)"
  shows "next_cmd b m w = (Some TypeError, w) \<and> back_cmd b m w = (Some TypeError, w) \<and>
         select b m choice w = (Some TypeError, w) \<and> dismiss b m w = (Some TypeError, w) \<and>
         (user_id (author m) \<noteq> user_id (bot_user b) \<and> startswith (content m) (prefix b) \<and>
          shlex_split ev (lstrip (content m) (prefix b)) = Inr toks \<and>
          parse_args ev (sub_parsers b) toks = Inr ns \<and>
          commands b (ns_command ns) = Some (Wrapped no_attrs f) \<and> f_code f = BuiltinCode bi \<longrightarrow>
          process_message ev b m w = (Some TypeError, w))"
proof -
  have n: "find_menu b w m = Inr None"
    unfolding find_menu_def using assms by (rule find_menu_loop_none)
  have c: "call_builtin b bi m (ns_args ns) w = (Some TypeError, w)"
    using n by (rule call_builtin_without_menu)
  have r: "run_checks permission_checks ev b (Wrapped no_attrs f) m True w = (Inr True, w)"
    by (rule run_checks_no_attrs) simp
  have "process_message ev b m w = (Some TypeError, w)"
    if "user_id (author m) \<noteq> user_id (bot_user b)" "startswith (content m) (prefix b)"
       "shlex_split ev (lstrip (content m) (prefix b)) = Inr toks"
       "parse_args ev (sub_parsers b) toks = Inr ns"
       "commands b (ns_command ns) = Some (Wrapped no_attrs f)" "f_code f = BuiltinCode bi"
    using that by (simp add: process_message_def dispatch_def Let_def r call_func_def c)
  then show ?thesis
    using n by (simp add: next_cmd_def back_cmd_def page_def select_def dismiss_def)
qed

theorem navigation_without_menu_raises_witness:
  "logs_from (receive (said alice 13 ''!dismiss'') chatter) (Channel 7) 50
     (said alice 13 ''!dismiss'') = [said carol 12 ''thanks'', pong, said carol 10 ''!ping''] \<and>
   dismiss fruits_bot (said alice 13 ''!dismiss'') (receive (said alice 13 ''!dismiss'') chatter) =
     (Some TypeError, receive (said alice 13 ''!dismiss'') chatter) \<and>
   process_message example_env fruits_bot (said alice 13 ''!dismiss'')
     (receive (said alice 13 ''!dismiss'') chatter) =
     (Some TypeError, receive (said alice 13 ''!dismiss'') chatter)"
proof -
  let ?m = "said alice 13 ''!dismiss''"
  let ?w = "receive ?m chatter"
  let ?ns = "\<lparr>ns_command = Some ''dismiss'', ns_args = []\<rparr>"
  let ?f = "builtin_method ''dismiss'' ''Dismiss the nearest menu.'' [message_parameter] Dismiss"
  have e: "logs_from ?w (Channel 7) 50 ?m = [said carol 12 ''thanks'', pong, said carol 10 ''!ping'']"
    by code_simp
  have ch: "channel ?m = Channel 7"
    by (simp add: said_def)
  have h: "\<forall>x \<in> set (logs_from ?w (channel ?m) 50 ?m).
             \<not> (user_id (author x) = user_id (bot_user fruits_bot) \<and> length (embeds x) = 1)"
    unfolding ch e by (simp add: said_def pong_def)
  have d: "user_id (author ?m) \<noteq> user_id (bot_user fruits_bot) \<and>
           startswith (content ?m) (prefix fruits_bot) \<and>
           shlex_split example_env (lstrip (content ?m) (prefix fruits_bot)) = Inr [''dismiss''] \<and>
           parse_args example_env (sub_parsers fruits_bot) [''dismiss''] = Inr ?ns \<and>
           commands fruits_bot (ns_command ?ns) = Some (Wrapped no_attrs ?f) \<and>
           f_code ?f = BuiltinCode Dismiss"
    by code_simp
  show ?thesis
    using e d navigation_without_menu_raises [OF h, of 0 example_env "[''dismiss'']" ?ns ?f Dismiss]
    by simp
qed

section \<open>Paging past the last option\<close>

text \<open>
  C9 as stated: after \<open>fruits\<close> is activated, \<open>next\<close> edits the menu message to an
  empty page 2 and deletes the trigger. It fails on the code: the result of \<open>next\<close> is
  not that world.
\<close>

theorem next_on_last_page_counterexample:
  "process_message example_env fruits_bot (said alice 12 ''!next'')
     (receive (said alice 12 ''!next'') after_activation) \<noteq>
   (None, \<lparr>log = [fruits_menu\<lparr>embeds := [second_page]\<rparr>], next_id = 13, calls = []\<rparr>)"
  by code_simp

text \<open>
  C9 as amended: activating \<open>fruits\<close> sends one message with a field per option and the
  footer \<open>Page: 1 List: fruits Selection: True\<close> and deletes the trigger; \<open>next\<close>
  then raises \<open>IndexError\<close> while rendering page 2 (there is no option with index 5),
  the menu message keeps its page 1 content and the trigger is not deleted.
\<close>

theorem next_on_last_page_raises:
  "after_activation = \<lparr>log = [fruits_menu], next_id = 12, calls = []\<rparr> \<and>
   process_message example_env fruits_bot (said alice 12 ''!next'')
     (receive (said alice 12 ''!next'') after_activation) =
   (Some IndexError, receive (said alice 12 ''!next'') after_activation)"
  by code_simp

text \<open>
  In general, rendering a selectable page fails as soon as the page reaches beyond the
  last option: only a menu whose length is a multiple of 5 has a last page that renders.
\<close>

lemma add_fields_past_end:
  "\<forall>i \<in> set ixs. 0 \<le> i \<Longrightarrow> \<exists>i \<in> set ixs. int (length opts) \<le> i \<Longrightarrow>
   add_fields opts ixs e = Inl IndexError"
proof (induction ixs arbitrary: e)
  case Nil
  then show ?case by simp
next
  case (Cons i ixs)
  show ?case
  proof (cases "int (length opts) \<le> i")
    case True
    with Cons.prems(1) show ?thesis by (simp add: py_getitem_def)
  next
    case False
    with Cons.prems have "\<exists>j \<in> set ixs. int (length opts) \<le> j" by auto
    moreover from Cons.prems(1) have "\<forall>j \<in> set ixs. 0 \<le> j" by simp
    ultimately have "\<And>e'. add_fields opts ixs e' = Inl IndexError"
      using Cons.IH by blast
    then show ?thesis by (auto simp: py_getitem_def split: sum.splits if_splits)
  qed
qed

lemma create_embed_menu_past_end:
  assumes "menus b ttl = Some entry" and "1 \<le> pg" and "int (length (options entry)) < 5 * pg"
  shows "create_embed_menu b ttl pg True = Inl IndexError"
proof -
  let ?start = "(pg - 1) * int items_per_page"
  have nonneg: "\<forall>i \<in> set (py_range ?start items_per_page). 0 \<le> i"
    using assms(2) by (auto simp: py_range_def)
  have "?start + 4 \<in> set (py_range ?start items_per_page)"
    by (simp add: py_range_def items_per_page_def upt_rec image_iff)
  moreover have "int (length (options entry)) \<le> ?start + 4"
    using assms(3) by (simp add: items_per_page_def algebra_simps)
  ultimately have "\<exists>i \<in> set (py_range ?start items_per_page). int (length (options entry)) \<le> i"
    by blast
  with nonneg have "\<And>e. add_fields (options entry) (py_range ?start items_per_page) e = Inl IndexError"
    by (rule add_fields_past_end)
  then show ?thesis
    using assms(1) by (simp add: create_embed_menu_def Let_def)
qed

section \<open>The permission pipeline\<close>

lemma first_missing_nonempty: "first_missing held perms = Missing \<Longrightarrow> perms \<noteq> []"
  by (cases perms) auto

lemma check_permissions_denies:
  assumes "permissions_required (attrs_of cmd) = Some perms"
      and "check_failed (attrs_of cmd) = Some template"
      and "server_permissions (author m) = Some held"
      and "first_missing held perms = Missing"
      and "str_format ev template
             (case nick (author m) of Some n \<Rightarrow> n | None \<Rightarrow> Some (user_name (author m)))
             (mention (author m)) = Inr txt"
  shows "check_permissions ev b cmd m w =
           (Inr (Some False), send_message (bot_user b) (channel m) txt [] w)"
  using assms first_missing_nonempty [OF assms(4)]
  by (simp add: check_permissions_def)

lemma check_owner_result:
  assumes "bot_owner (attrs_of cmd) = Some True"
  shows "check_owner ev b cmd m w =
           (if (case app_owner b of None \<Rightarrow> False | Some ow \<Rightarrow> user_id (author m) = user_id ow)
            then (Inr (Some True), w)
            else (Inr (Some False),
                  send_message (bot_user b) (channel m) (owner_text (mention (author m))) [] w))"
  using assms by (simp add: check_owner_def)

text \<open>
  C5 as stated: after the permission-flag check has failed and reported, the owner check
  does not run, so a dispatch sends at most one denial. It fails on the code: \<open>alice\<close>
  lacks \<open>administrator\<close> and is not the owner, and one dispatch of the command
  \<open>guarded\<close> sends two denials to the channel.
\<close>

theorem double_denial_counterexample:
  "map content (log (snd (process_message example_env guarded_bot (said alice 10 ''!greet Bob'')
                            (receive (said alice 10 ''!greet Bob'') quiet)))) =
     [''<@2> that command is only accesible to the owner of the bot.'',
      ''<@2>: {mention} that command requires admin privilges.'',
      ''!greet Bob'']"
  by code_simp

text \<open>
  C5 as amended: for a command marked both owner-only and permissions-required whose
  invoker lacks a required permission, the permission check sends its denial, the owner
  check runs all the same and sends a second denial unless the invoker is the owner,
  and the handler is not invoked: the world after the dispatch differs from the one
  before by these one or two messages only.
\<close>

theorem denied_permission_still_checks_owner:
  assumes "user_id (author m) \<noteq> user_id (bot_user b)"
      and "startswith (content m) (prefix b)"
      and "shlex_split ev (lstrip (content m) (prefix b)) = Inr toks"
      and "parse_args ev (sub_parsers b) toks = Inr ns"
      and "commands b (ns_command ns) = Some cmd"
      and "bot_owner (attrs_of cmd) = Some True"
      and "permissions_required (attrs_of cmd) = Some perms"
      and "check_failed (attrs_of cmd) = Some template"
      and "server_permissions (author m) = Some held"
      and "first_missing held perms = Missing"
      and "str_format ev template
             (case nick (author m) of Some n \<Rightarrow> n | None \<Rightarrow> Some (user_name (author m)))
             (mention (author m)) = Inr txt"
  shows "process_message ev b m w =
           (None,
            if (case app_owner b of None \<Rightarrow> False | Some ow \<Rightarrow> user_id (author m) = user_id ow)
            then send_message (bot_user b) (channel m) txt [] w
            else send_message (bot_user b) (channel m) (owner_text (mention (author m))) []
                   (send_message (bot_user b) (channel m) txt [] w))"
proof -
  have p: "check_permissions ev b cmd m w =
             (Inr (Some False), send_message (bot_user b) (channel m) txt [] w)"
    using assms(7-11) by (rule check_permissions_denies)
  have r: "run_checks permission_checks ev b cmd m True w =
             (Inr False,
              if (case app_owner b of None \<Rightarrow> False | Some ow \<Rightarrow> user_id (author m) = user_id ow)
              then send_message (bot_user b) (channel m) txt [] w
              else send_message (bot_user b) (channel m) (owner_text (mention (author m))) []
                     (send_message (bot_user b) (channel m) txt [] w))"
    by (simp add: permission_checks_def p check_owner_result [OF assms(6)])
  have "dispatch ev b m w =
          (None,
           if (case app_owner b of None \<Rightarrow> False | Some ow \<Rightarrow> user_id (author m) = user_id ow)
           then send_message (bot_user b) (channel m) txt [] w
           else send_message (bot_user b) (channel m) (owner_text (mention (author m))) []
                  (send_message (bot_user b) (channel m) txt [] w))"
    by (simp add: dispatch_def Let_def assms(3-5) r)
  then show ?thesis
    using assms(1,2) by (simp add: process_message_def)
qed

theorem denied_permission_still_checks_owner_witness:
  "process_message example_env guarded_bot (said alice 10 ''!greet Bob'')
     (receive (said alice 10 ''!greet Bob'') quiet) =
   (None,
    send_message bot_me (Channel 7) ''<@2> that command is only accesible to the owner of the bot.'' []
      (send_message bot_me (Channel 7) ''<@2>: {mention} that command requires admin privilges.'' []
         (receive (said alice 10 ''!greet Bob'') quiet)))"
proof -
  let ?m = "said alice 10 ''!greet Bob''"
  have h1: "user_id (author ?m) \<noteq> user_id (bot_user guarded_bot)" by code_simp
  have h2: "startswith (content ?m) (prefix guarded_bot)" by code_simp
  have h3: "shlex_split example_env (lstrip (content ?m) (prefix guarded_bot)) = Inr [''greet'', ''Bob'']"
    by code_simp
  have h4: "parse_args example_env (sub_parsers guarded_bot) [''greet'', ''Bob''] =
              Inr \<lparr>ns_command = Some ''greet'', ns_args = [(''name'', VStr ''Bob'')]\<rparr>"
    by code_simp
  have h5: "commands guarded_bot (ns_command \<lparr>ns_command = Some ''greet'', ns_args = [(''name'', VStr ''Bob'')]\<rparr>) = Some (Plain guarded)"
    by code_simp
  have h6: "bot_owner (attrs_of (Plain guarded)) = Some True" by code_simp
  have h7: "permissions_required (attrs_of (Plain guarded)) = Some [''administrator'']" by code_simp
  have h8: "check_failed (attrs_of (Plain guarded)) = Some default_message" by code_simp
  have h9: "server_permissions (author ?m) = Some [(''administrator'', False)]" by code_simp
  have h10: "first_missing [(''administrator'', False)] [''administrator''] = Missing" by code_simp
  have h11: "str_format example_env default_message
               (case nick (author ?m) of Some n \<Rightarrow> n | None \<Rightarrow> Some (user_name (author ?m)))
               (mention (author ?m)) = Inr ''<@2>: {mention} that command requires admin privilges.''"
    by code_simp
  have o: "\<not> (case app_owner guarded_bot of None \<Rightarrow> False | Some ow \<Rightarrow> user_id (author ?m) = user_id ow)"
    by code_simp
  have u: "bot_user guarded_bot = bot_me" by code_simp
  have c: "channel ?m = Channel 7" by code_simp
  have t: "owner_text (mention (author ?m)) = ''<@2> that command is only accesible to the owner of the bot.''"
    by code_simp
  show ?thesis
    using denied_permission_still_checks_owner [OF h1 h2 h3 h4 h5 h6 h7 h8 h9 h10 h11,
        of "receive (said alice 10 ''!greet Bob'') quiet"] o
    unfolding u c t by simp
qed

section \<open>Menus registered without a name\<close>




text \<open>The same failure, seen from \<open>process_message\<close>.\<close>

lemma unnamed_menu_fails_in_dispatch:
  "process_message example_env (register_select_menu (started bot_me None ''!'') fruits None pick)
     (said alice 10 ''!pick'') (receive (said alice 10 ''!pick'') quiet) =
   (Some KeyError, receive (said alice 10 ''!pick'') quiet)"
  by code_simp


end
